theory Spec2Isabelle
  imports Main
begin

section \<open>Data model of the device action dispatcher (fp-device.c)\<close>

text \<open>
  The dispatcher is single-threaded C over a private per-device structure. Every public
  entry point is embedded as a function from the private state to the list of externally
  visible steps it performs, in program order, paired with the state it leaves behind.
\<close>

datatype FpDeviceError =
    FP_DEVICE_ERROR_GENERAL
  | FP_DEVICE_ERROR_NOT_SUPPORTED
  | FP_DEVICE_ERROR_NOT_OPEN
  | FP_DEVICE_ERROR_ALREADY_OPEN
  | FP_DEVICE_ERROR_BUSY
  | FP_DEVICE_ERROR_DATA_INVALID
  | FP_DEVICE_ERROR_REMOVED
  | FP_DEVICE_ERROR_TOO_HOT

datatype FpiDeviceAction =
    FPI_DEVICE_ACTION_NONE
  | FPI_DEVICE_ACTION_PROBE
  | FPI_DEVICE_ACTION_OPEN
  | FPI_DEVICE_ACTION_CLOSE
  | FPI_DEVICE_ACTION_ENROLL
  | FPI_DEVICE_ACTION_VERIFY
  | FPI_DEVICE_ACTION_IDENTIFY
  | FPI_DEVICE_ACTION_CAPTURE
  | FPI_DEVICE_ACTION_LIST
  | FPI_DEVICE_ACTION_DELETE
  | FPI_DEVICE_ACTION_CLEAR_STORAGE

datatype FpDeviceType = FP_DEVICE_TYPE_VIRTUAL | FP_DEVICE_TYPE_UDEV | FP_DEVICE_TYPE_USB

datatype FpTemperature = FP_TEMPERATURE_COLD | FP_TEMPERATURE_WARM | FP_TEMPERATURE_HOT

text \<open>The feature bitmask is a set of single-bit flags; \<open>features & F\<close> is membership.\<close>

datatype FpDeviceFeature =
    FP_DEVICE_FEATURE_CAPTURE
  | FP_DEVICE_FEATURE_IDENTIFY
  | FP_DEVICE_FEATURE_VERIFY
  | FP_DEVICE_FEATURE_STORAGE
  | FP_DEVICE_FEATURE_STORAGE_LIST
  | FP_DEVICE_FEATURE_STORAGE_DELETE
  | FP_DEVICE_FEATURE_STORAGE_CLEAR
  | FP_DEVICE_FEATURE_DUPLICATES_CHECK
  | FP_DEVICE_FEATURE_ALWAYS_ON
  | FP_DEVICE_FEATURE_UPDATE_PRINT

text \<open>Finger status is a flag word as well; \<open>FP_FINGER_STATUS_NONE\<close> is the empty word.\<close>

datatype FpFingerStatusFlag = FP_FINGER_STATUS_NEEDED | FP_FINGER_STATUS_PRESENT

type_synonym FpFingerStatusFlags = "FpFingerStatusFlag set"

definition FP_FINGER_STATUS_NONE :: FpFingerStatusFlags where
  "FP_FINGER_STATUS_NONE = {}"

datatype FpiPrintType = FPI_PRINT_UNDEFINED | FPI_PRINT_RAW | FPI_PRINT_NBIS

record FpPrint =
  fpi_type :: FpiPrintType
  print_driver :: string
  print_device_id :: string

text \<open>A cancellable is read only through its cancelled flag.\<close>

datatype GCancellable = GCancellable (g_cancellable_is_cancelled: bool)

datatype task_data =
    FpEnrollData FpPrint
  | FpMatchData_verify "FpPrint option"
  | FpMatchData_identify "FpPrint list"
  | Delete_print "FpPrint option"

record GTask =
  task_cancellable :: "GCancellable option"
  task_data :: "task_data option"

text \<open>
  The private structure, with the fields the entry points read or write. Handler ids are
  kept as booleans (a handler is connected exactly when its id is non-zero), sources as
  presence flags, and \<open>critical_section\<close> is the unsigned nesting counter.
\<close>

record FpDevicePrivate =
  dev_type :: FpDeviceType
  device_id :: string
  features :: "FpDeviceFeature set"
  is_open :: bool
  is_removed :: bool
  is_suspended :: bool
  current_action :: FpiDeviceAction
  current_task :: "GTask option"
  suspend_resume_task :: "GTask option"
  current_cancellable :: "GCancellable option"
  current_cancellable_id :: bool
  current_task_cancellable_id :: bool
  current_idle_cancel_source :: bool
  critical_section :: nat
  cancel_queued :: bool
  wait_for_finger :: bool
  finger_status :: FpFingerStatusFlags
  temp_current :: FpTemperature
  temp_last_active :: bool

text \<open>
  The driver class. \<open>open\<close>, \<open>close\<close> and \<open>enroll\<close> are called by the dispatcher
  without a NULL test and are therefore total here; the optional entry points are
  \<open>None\<close> when the function pointer is NULL. Each entry point is the driver's synchronous
  effect on the private state.
\<close>

record FpDeviceClass =
  cls_id :: string
  cls_open :: "FpDevicePrivate \<Rightarrow> FpDevicePrivate"
  cls_close :: "FpDevicePrivate \<Rightarrow> FpDevicePrivate"
  cls_enroll :: "FpDevicePrivate \<Rightarrow> FpDevicePrivate"
  cls_verify :: "(FpDevicePrivate \<Rightarrow> FpDevicePrivate) option"
  cls_identify :: "(FpDevicePrivate \<Rightarrow> FpDevicePrivate) option"
  cls_capture :: "(FpDevicePrivate \<Rightarrow> FpDevicePrivate) option"
  cls_delete :: "(FpDevicePrivate \<Rightarrow> FpDevicePrivate) option"
  cls_list :: "(FpDevicePrivate \<Rightarrow> FpDevicePrivate) option"
  cls_clear_storage :: "(FpDevicePrivate \<Rightarrow> FpDevicePrivate) option"
  cls_cancel :: "(FpDevicePrivate \<Rightarrow> FpDevicePrivate) option"

datatype vfunc =
    Vf_open | Vf_close | Vf_enroll | Vf_verify | Vf_identify | Vf_capture
  | Vf_delete | Vf_list | Vf_clear_storage | Vf_cancel

text \<open>
  The steps an entry point performs that are visible outside it: resolving the task of
  this call, calling the temperature model, reporting finger status, handing control to a
  driver entry point or to the suspend/resume machinery, and jumping through a NULL
  function pointer.
\<close>

datatype event =
    Task_return_cancelled
  | Task_return_error FpDeviceError
  | Task_return_usb_error
  | Task_return_boolean bool
  | Update_temp bool
  | Report_finger_status FpFingerStatusFlags
  | Driver_call vfunc
  | Null_call vfunc
  | Call_fpi_device_suspend
  | Call_fpi_device_resume

type_synonym outcome = "event list \<times> FpDevicePrivate"

section \<open>Helpers\<close>

definition g_task_new :: "GCancellable option \<Rightarrow> GTask" where
  "g_task_new cancellable = \<lparr>task_cancellable = cancellable, task_data = None\<rparr>"

definition g_task_return_error_if_cancelled :: "GTask \<Rightarrow> bool" where
  "g_task_return_error_if_cancelled task =
     (case task_cancellable task of
        None \<Rightarrow> False
      | Some c \<Rightarrow> g_cancellable_is_cancelled c)"

definition g_task_set_task_data :: "task_data \<Rightarrow> FpDevicePrivate \<Rightarrow> FpDevicePrivate" where
  "g_task_set_task_data d s =
     s\<lparr>current_task := map_option (\<lambda>t. t\<lparr>task_data := Some d\<rparr>) (current_task s)\<rparr>"

text \<open>
  Modelled from the spec: \<open>fpi_device_report_finger_status\<close> is defined outside the
  dispatcher file; the spec says the finger-presence status is forcibly set to the
  reported value regardless of its prior state.
\<close>

definition fpi_device_report_finger_status ::
    "FpFingerStatusFlags \<Rightarrow> FpDevicePrivate \<Rightarrow> FpDevicePrivate" where
  "fpi_device_report_finger_status st s = s\<lparr>finger_status := st\<rparr>"

text \<open>
  Modelled from the spec: \<open>fp_print_compatible\<close> is defined with the print object; the
  spec's compatibility tag is the pair of driver id and device id, both of which must
  match the device.
\<close>

definition fp_print_compatible :: "FpDeviceClass \<Rightarrow> FpPrint \<Rightarrow> FpDevicePrivate \<Rightarrow> bool" where
  "fp_print_compatible cls p s \<longleftrightarrow>
     print_driver p = cls_id cls \<and> print_device_id p = device_id s"

definition fp_device_get_features :: "FpDevicePrivate \<Rightarrow> FpDeviceFeature set" where
  "fp_device_get_features s = features s"

definition fp_device_has_feature :: "FpDevicePrivate \<Rightarrow> FpDeviceFeature set \<Rightarrow> bool" where
  "fp_device_has_feature s feature =
     (if feature = {} then fp_device_get_features s = feature
      else fp_device_get_features s \<inter> feature = feature)"

definition setup_task_cancellable :: "FpDeviceClass \<Rightarrow> FpDevicePrivate \<Rightarrow> FpDevicePrivate" where
  "setup_task_cancellable cls s =
     (let s1 = s\<lparr>current_cancellable := Some (GCancellable False)\<rparr>;
          s2 = (if cls_cancel cls \<noteq> None then s1\<lparr>current_cancellable_id := True\<rparr> else s1)
      in if (case current_task s2 of None \<Rightarrow> False | Some t \<Rightarrow> task_cancellable t \<noteq> None)
         then s2\<lparr>current_task_cancellable_id := True\<rparr>
         else s2)"

section \<open>Cancellation bridge\<close>

definition fp_device_cancelled_cb :: "FpDevicePrivate \<Rightarrow> FpDevicePrivate" where
  "fp_device_cancelled_cb s = s\<lparr>current_idle_cancel_source := True\<rparr>"

text \<open>The two assertions abort the process; an abort is the result \<open>None\<close>.\<close>

definition fp_device_cancel_in_idle_cb :: "FpDeviceClass \<Rightarrow> FpDevicePrivate \<Rightarrow> outcome option" where
  "fp_device_cancel_in_idle_cb cls s =
     (case cls_cancel cls of
        None \<Rightarrow> None
      | Some cancel \<Rightarrow>
          if current_action s = FPI_DEVICE_ACTION_NONE then None
          else
            let s1 = s\<lparr>current_idle_cancel_source := False\<rparr> in
            if critical_section s1 \<noteq> 0
            then Some ([Report_finger_status FP_FINGER_STATUS_NONE],
                       fpi_device_report_finger_status FP_FINGER_STATUS_NONE
                         (s1\<lparr>cancel_queued := True\<rparr>))
            else Some ([Driver_call Vf_cancel, Report_finger_status FP_FINGER_STATUS_NONE],
                       fpi_device_report_finger_status FP_FINGER_STATUS_NONE (cancel s1)))"

section \<open>Public entry points\<close>

text \<open>
  \<open>g_usb_device_open\<close> belongs to the USB library; its success is the parameter
  \<open>usb_ok\<close>.
\<close>

definition fp_device_open ::
    "FpDeviceClass \<Rightarrow> bool \<Rightarrow> GCancellable option \<Rightarrow> FpDevicePrivate \<Rightarrow> outcome" where
  "fp_device_open cls usb_ok cancellable s =
     (let task = g_task_new cancellable in
      if g_task_return_error_if_cancelled task then ([Task_return_cancelled], s)
      else if is_open s then ([Task_return_error FP_DEVICE_ERROR_ALREADY_OPEN], s)
      else if current_task s \<noteq> None \<or> is_suspended s
        then ([Task_return_error FP_DEVICE_ERROR_BUSY], s)
      else if dev_type s = FP_DEVICE_TYPE_USB \<and> \<not> usb_ok then ([Task_return_usb_error], s)
      else
        let s1 = s\<lparr>current_action := FPI_DEVICE_ACTION_OPEN, current_task := Some task\<rparr>;
            s2 = setup_task_cancellable cls s1;
            s3 = fpi_device_report_finger_status FP_FINGER_STATUS_NONE s2
        in ([Report_finger_status FP_FINGER_STATUS_NONE, Driver_call Vf_open], cls_open cls s3))"

definition fp_device_close ::
    "FpDeviceClass \<Rightarrow> GCancellable option \<Rightarrow> FpDevicePrivate \<Rightarrow> outcome" where
  "fp_device_close cls cancellable s =
     (let task = g_task_new cancellable in
      if g_task_return_error_if_cancelled task then ([Task_return_cancelled], s)
      else if \<not> is_open s then ([Task_return_error FP_DEVICE_ERROR_NOT_OPEN], s)
      else if current_task s \<noteq> None \<or> is_suspended s
        then ([Task_return_error FP_DEVICE_ERROR_BUSY], s)
      else
        let s1 = s\<lparr>current_action := FPI_DEVICE_ACTION_CLOSE, current_task := Some task\<rparr>;
            s2 = setup_task_cancellable cls s1
        in ([Driver_call Vf_close], cls_close cls s2))"

text \<open>
  \<open>fpi_device_suspend\<close> and \<open>fpi_device_resume\<close> are defined with the driver-facing
  half of the device; they are parameters of the two entry points that end in them.
\<close>

definition fp_device_suspend ::
    "(FpDevicePrivate \<Rightarrow> FpDevicePrivate) \<Rightarrow> GCancellable option \<Rightarrow> FpDevicePrivate \<Rightarrow> outcome" where
  "fp_device_suspend fpi_device_suspend cancellable s =
     (let task = g_task_new cancellable in
      if suspend_resume_task s \<noteq> None \<or> is_suspended s
        then ([Task_return_error FP_DEVICE_ERROR_BUSY], s)
      else if is_removed s then ([Task_return_error FP_DEVICE_ERROR_REMOVED], s)
      else ([Call_fpi_device_suspend], fpi_device_suspend (s\<lparr>suspend_resume_task := Some task\<rparr>)))"

definition fp_device_resume ::
    "(FpDevicePrivate \<Rightarrow> FpDevicePrivate) \<Rightarrow> GCancellable option \<Rightarrow> FpDevicePrivate \<Rightarrow> outcome" where
  "fp_device_resume fpi_device_resume cancellable s =
     (let task = g_task_new cancellable in
      if suspend_resume_task s \<noteq> None \<or> \<not> is_suspended s
        then ([Task_return_error FP_DEVICE_ERROR_BUSY], s)
      else if is_removed s then ([Task_return_error FP_DEVICE_ERROR_REMOVED], s)
      else ([Call_fpi_device_resume], fpi_device_resume (s\<lparr>suspend_resume_task := Some task\<rparr>)))"

text \<open>
  \<open>fpi_device_update_temp\<close> is the temperature model, defined outside the dispatcher
  file; the four biometric entry points take it as the parameter of the same name, applied
  to the \<open>is_active\<close> flag and the private state. The template argument is \<open>None\<close> when
  the caller passed something that is not a print.
\<close>

definition fp_device_enroll ::
    "(bool \<Rightarrow> FpDevicePrivate \<Rightarrow> FpDevicePrivate) \<Rightarrow> FpDeviceClass \<Rightarrow> FpPrint option
       \<Rightarrow> GCancellable option \<Rightarrow> FpDevicePrivate \<Rightarrow> outcome" where
  "fp_device_enroll fpi_device_update_temp cls template_print cancellable s =
     (let task = g_task_new cancellable in
      if g_task_return_error_if_cancelled task then ([Task_return_cancelled], s)
      else if \<not> is_open s then ([Task_return_error FP_DEVICE_ERROR_NOT_OPEN], s)
      else if current_task s \<noteq> None \<or> is_suspended s
        then ([Task_return_error FP_DEVICE_ERROR_BUSY], s)
      else case template_print of
        None \<Rightarrow> ([Task_return_error FP_DEVICE_ERROR_DATA_INVALID], s)
      | Some print \<Rightarrow>
          if fpi_type print \<noteq> FPI_PRINT_UNDEFINED
             \<and> \<not> fp_device_has_feature s {FP_DEVICE_FEATURE_UPDATE_PRINT}
            then ([Task_return_error FP_DEVICE_ERROR_DATA_INVALID], s)
          else if fpi_type print \<noteq> FPI_PRINT_UNDEFINED \<and> \<not> fp_print_compatible cls print s
            then ([Task_return_error FP_DEVICE_ERROR_DATA_INVALID], s)
          else
            let s1 = fpi_device_update_temp True s in
            if temp_current s1 = FP_TEMPERATURE_HOT
            then ([Update_temp True, Task_return_error FP_DEVICE_ERROR_TOO_HOT, Update_temp False],
                  fpi_device_update_temp False s1)
            else
              let s2 = s1\<lparr>current_action := FPI_DEVICE_ACTION_ENROLL, current_task := Some task\<rparr>;
                  s3 = setup_task_cancellable cls s2;
                  s4 = g_task_set_task_data (FpEnrollData print) s3
              in ([Update_temp True, Driver_call Vf_enroll], cls_enroll cls s4))"

definition fp_device_verify ::
    "(bool \<Rightarrow> FpDevicePrivate \<Rightarrow> FpDevicePrivate) \<Rightarrow> FpDeviceClass \<Rightarrow> FpPrint option
       \<Rightarrow> GCancellable option \<Rightarrow> FpDevicePrivate \<Rightarrow> outcome" where
  "fp_device_verify fpi_device_update_temp cls enrolled_print cancellable s =
     (let task = g_task_new cancellable in
      if g_task_return_error_if_cancelled task then ([Task_return_cancelled], s)
      else if \<not> is_open s then ([Task_return_error FP_DEVICE_ERROR_NOT_OPEN], s)
      else if current_task s \<noteq> None \<or> is_suspended s
        then ([Task_return_error FP_DEVICE_ERROR_BUSY], s)
      else case cls_verify cls of
        None \<Rightarrow> ([Task_return_error FP_DEVICE_ERROR_NOT_SUPPORTED], s)
      | Some verify \<Rightarrow>
          if FP_DEVICE_FEATURE_VERIFY \<notin> features s
            then ([Task_return_error FP_DEVICE_ERROR_NOT_SUPPORTED], s)
          else
            let s1 = fpi_device_update_temp True s in
            if temp_current s1 = FP_TEMPERATURE_HOT
            then ([Update_temp True, Task_return_error FP_DEVICE_ERROR_TOO_HOT, Update_temp False],
                  fpi_device_update_temp False s1)
            else
              let s2 = s1\<lparr>current_action := FPI_DEVICE_ACTION_VERIFY, current_task := Some task\<rparr>;
                  s3 = setup_task_cancellable cls s2;
                  s4 = g_task_set_task_data (FpMatchData_verify enrolled_print) s3
              in ([Update_temp True, Driver_call Vf_verify], verify s4))"

text \<open>The gallery argument is \<open>None\<close> when the caller passed a NULL array.\<close>

definition fp_device_identify ::
    "(bool \<Rightarrow> FpDevicePrivate \<Rightarrow> FpDevicePrivate) \<Rightarrow> FpDeviceClass \<Rightarrow> FpPrint list option
       \<Rightarrow> GCancellable option \<Rightarrow> FpDevicePrivate \<Rightarrow> outcome" where
  "fp_device_identify fpi_device_update_temp cls prints cancellable s =
     (let task = g_task_new cancellable in
      if g_task_return_error_if_cancelled task then ([Task_return_cancelled], s)
      else if \<not> is_open s then ([Task_return_error FP_DEVICE_ERROR_NOT_OPEN], s)
      else if current_task s \<noteq> None \<or> is_suspended s
        then ([Task_return_error FP_DEVICE_ERROR_BUSY], s)
      else case cls_identify cls of
        None \<Rightarrow> ([Task_return_error FP_DEVICE_ERROR_NOT_SUPPORTED], s)
      | Some identify \<Rightarrow>
          if FP_DEVICE_FEATURE_IDENTIFY \<notin> features s
            then ([Task_return_error FP_DEVICE_ERROR_NOT_SUPPORTED], s)
          else
            (case prints of
               None \<Rightarrow> ([Task_return_error FP_DEVICE_ERROR_DATA_INVALID], s)
             | Some gallery \<Rightarrow>
                 let s1 = fpi_device_update_temp True s in
                 if temp_current s1 = FP_TEMPERATURE_HOT
                 then ([Update_temp True, Task_return_error FP_DEVICE_ERROR_TOO_HOT, Update_temp False],
                       fpi_device_update_temp False s1)
                 else
                   let s2 = s1\<lparr>current_action := FPI_DEVICE_ACTION_IDENTIFY, current_task := Some task\<rparr>;
                       s3 = setup_task_cancellable cls s2;
                       s4 = g_task_set_task_data (FpMatchData_identify gallery) s3
                   in ([Update_temp True, Driver_call Vf_identify], identify s4)))"

definition fp_device_capture ::
    "(bool \<Rightarrow> FpDevicePrivate \<Rightarrow> FpDevicePrivate) \<Rightarrow> FpDeviceClass \<Rightarrow> bool
       \<Rightarrow> GCancellable option \<Rightarrow> FpDevicePrivate \<Rightarrow> outcome" where
  "fp_device_capture fpi_device_update_temp cls wait cancellable s =
     (let task = g_task_new cancellable in
      if g_task_return_error_if_cancelled task then ([Task_return_cancelled], s)
      else if \<not> is_open s then ([Task_return_error FP_DEVICE_ERROR_NOT_OPEN], s)
      else if current_task s \<noteq> None \<or> is_suspended s
        then ([Task_return_error FP_DEVICE_ERROR_BUSY], s)
      else case cls_capture cls of
        None \<Rightarrow> ([Task_return_error FP_DEVICE_ERROR_NOT_SUPPORTED], s)
      | Some capture \<Rightarrow>
          if FP_DEVICE_FEATURE_CAPTURE \<notin> features s
            then ([Task_return_error FP_DEVICE_ERROR_NOT_SUPPORTED], s)
          else
            let s1 = fpi_device_update_temp True s in
            if temp_current s1 = FP_TEMPERATURE_HOT
            then ([Update_temp True, Task_return_error FP_DEVICE_ERROR_TOO_HOT, Update_temp False],
                  fpi_device_update_temp False s1)
            else
              let s2 = s1\<lparr>current_action := FPI_DEVICE_ACTION_CAPTURE, current_task := Some task\<rparr>;
                  s3 = setup_task_cancellable cls s2;
                  s4 = s3\<lparr>wait_for_finger := wait\<rparr>
              in ([Update_temp True, Driver_call Vf_capture], capture s4))"

definition fp_device_delete_print ::
    "FpDeviceClass \<Rightarrow> FpPrint option \<Rightarrow> GCancellable option \<Rightarrow> FpDevicePrivate \<Rightarrow> outcome" where
  "fp_device_delete_print cls enrolled_print cancellable s =
     (let task = g_task_new cancellable in
      if g_task_return_error_if_cancelled task then ([Task_return_cancelled], s)
      else if \<not> is_open s then ([Task_return_error FP_DEVICE_ERROR_NOT_OPEN], s)
      else if current_task s \<noteq> None \<or> is_suspended s
        then ([Task_return_error FP_DEVICE_ERROR_BUSY], s)
      else case cls_delete cls of
        None \<Rightarrow> ([Task_return_boolean True], s)
      | Some delete \<Rightarrow>
          if FP_DEVICE_FEATURE_STORAGE_DELETE \<notin> features s
            then ([Task_return_boolean True], s)
          else
            let s1 = s\<lparr>current_action := FPI_DEVICE_ACTION_DELETE, current_task := Some task\<rparr>;
                s2 = setup_task_cancellable cls s1;
                s3 = g_task_set_task_data (Delete_print enrolled_print) s2
            in ([Driver_call Vf_delete], delete s3))"

definition fp_device_list_prints ::
    "FpDeviceClass \<Rightarrow> GCancellable option \<Rightarrow> FpDevicePrivate \<Rightarrow> outcome" where
  "fp_device_list_prints cls cancellable s =
     (let task = g_task_new cancellable in
      if g_task_return_error_if_cancelled task then ([Task_return_cancelled], s)
      else if \<not> is_open s then ([Task_return_error FP_DEVICE_ERROR_NOT_OPEN], s)
      else if current_task s \<noteq> None \<or> is_suspended s
        then ([Task_return_error FP_DEVICE_ERROR_BUSY], s)
      else case cls_list cls of
        None \<Rightarrow> ([Task_return_error FP_DEVICE_ERROR_NOT_SUPPORTED], s)
      | Some list \<Rightarrow>
          if FP_DEVICE_FEATURE_STORAGE \<notin> features s
            then ([Task_return_error FP_DEVICE_ERROR_NOT_SUPPORTED], s)
          else
            let s1 = s\<lparr>current_action := FPI_DEVICE_ACTION_LIST, current_task := Some task\<rparr>;
                s2 = setup_task_cancellable cls s1
            in ([Driver_call Vf_list], list s2))"

text \<open>
  \<open>clear_storage\<close> is called through the class pointer after the two feature tests only;
  with a NULL pointer the call is a jump through NULL.
\<close>

definition fp_device_clear_storage ::
    "FpDeviceClass \<Rightarrow> GCancellable option \<Rightarrow> FpDevicePrivate \<Rightarrow> outcome" where
  "fp_device_clear_storage cls cancellable s =
     (let task = g_task_new cancellable in
      if g_task_return_error_if_cancelled task then ([Task_return_cancelled], s)
      else if \<not> is_open s then ([Task_return_error FP_DEVICE_ERROR_NOT_OPEN], s)
      else if current_task s \<noteq> None then ([Task_return_error FP_DEVICE_ERROR_BUSY], s)
      else if FP_DEVICE_FEATURE_STORAGE \<notin> features s
        then ([Task_return_error FP_DEVICE_ERROR_NOT_SUPPORTED], s)
      else if FP_DEVICE_FEATURE_STORAGE_CLEAR \<notin> features s
        then ([Task_return_error FP_DEVICE_ERROR_NOT_SUPPORTED], s)
      else
        let s1 = s\<lparr>current_action := FPI_DEVICE_ACTION_CLEAR_STORAGE, current_task := Some task\<rparr>;
            s2 = setup_task_cancellable cls s1
        in case cls_clear_storage cls of
             None \<Rightarrow> ([Null_call Vf_clear_storage], s2)
           | Some clear_storage \<Rightarrow> ([Driver_call Vf_clear_storage], clear_storage s2))"

section \<open>Wire-format constants of the mafpmoc driver (mafpmoc.h)\<close>

definition MAFP_USB_BUFFER_SIZE :: int where "MAFP_USB_BUFFER_SIZE = 512"
definition PACKAGE_CRC_SIZE :: int where "PACKAGE_CRC_SIZE = 2"
definition PACKAGE_HEADER_SIZE :: int where "PACKAGE_HEADER_SIZE = 9"
definition PACKAGE_DATA_SIZE_MAX :: int where
  "PACKAGE_DATA_SIZE_MAX = MAFP_USB_BUFFER_SIZE - PACKAGE_HEADER_SIZE - PACKAGE_CRC_SIZE"

definition TEMPLATE_ID_SIZE :: int where "TEMPLATE_ID_SIZE = 2"
definition TEMPLATE_UID_SIZE :: int where "TEMPLATE_UID_SIZE = 128"
definition DEVICE_SN_SIZE :: int where "DEVICE_SN_SIZE = 32"
definition MAX_FINGER_NUM :: int where "MAX_FINGER_NUM = 10"
definition MAX_USER_NUM :: int where "MAX_USER_NUM = 3"
definition MAX_NOTEPAD_PAGE :: int where "MAX_NOTEPAD_PAGE = 16"

text \<open>
  A struct is the list of its members, each with its element size in bytes and its array
  length (1 for a scalar). Every struct below either consists of byte-sized members only
  or is declared under \<open>#pragma pack(1)\<close>, so its size is the sum of its members.
\<close>

type_synonym c_struct = "(string \<times> int \<times> int) list"

definition sizeof :: "c_struct \<Rightarrow> int" where
  "sizeof st = sum_list (map (\<lambda>(name, elem, len). elem * len) st)"

fun array_len :: "c_struct \<Rightarrow> string \<Rightarrow> int option" where
  "array_len [] m = None"
| "array_len ((name, elem, len) # st) m = (if name = m then Some len else array_len st m)"

definition pack_header :: c_struct where
  "pack_header =
     [(''head0'', 1, 1), (''head1'', 1, 1), (''addr0'', 1, 1), (''addr1'', 1, 1),
      (''addr2'', 1, 1), (''addr3'', 1, 1), (''flag'', 1, 1),
      (''frame_len0'', 1, 1), (''frame_len1'', 1, 1)]"

definition mafp_tpl_table_t :: c_struct where
  "mafp_tpl_table_t = [(''used_num'', 1, 1), (''list'', 1, 256)]"

definition mafp_tpl_info_t :: c_struct where
  "mafp_tpl_info_t = [(''uid'', 1, 128)]"

definition mafp_template_t :: c_struct where
  "mafp_template_t = [(''sn'', 1, 32), (''id'', 2, 1), (''uid'', 1, 128)]"

text \<open>The array members of \<open>mafp_templates_t\<close>, with their lengths in elements.\<close>

definition mafp_templates_t_total_list_len :: int where
  "mafp_templates_t_total_list_len = 256"

definition mafp_templates_t_priv_list_len :: int where
  "mafp_templates_t_priv_list_len = MAX_FINGER_NUM"

section \<open>Concrete drivers and devices\<close>

text \<open>
  A driver that implements every entry point and does nothing in any of them, a device of
  that driver (open, idle, cold, a finger on the sensor), a temperature model that only
  records whether the sensor is in use, and a fresh template print. The theorems below are
  instantiated at these.
\<close>

definition example_cls :: FpDeviceClass where
  "example_cls =
     \<lparr>cls_id = ''mafpmoc'', cls_open = id, cls_close = id, cls_enroll = id,
      cls_verify = Some id, cls_identify = Some id, cls_capture = Some id,
      cls_delete = Some id, cls_list = Some id, cls_clear_storage = Some id,
      cls_cancel = Some id\<rparr>"

definition example_dev :: FpDevicePrivate where
  "example_dev =
     \<lparr>dev_type = FP_DEVICE_TYPE_USB, device_id = ''0'',
      features = {FP_DEVICE_FEATURE_CAPTURE, FP_DEVICE_FEATURE_IDENTIFY,
                  FP_DEVICE_FEATURE_VERIFY, FP_DEVICE_FEATURE_STORAGE,
                  FP_DEVICE_FEATURE_STORAGE_LIST, FP_DEVICE_FEATURE_STORAGE_DELETE,
                  FP_DEVICE_FEATURE_STORAGE_CLEAR},
      is_open = True, is_removed = False, is_suspended = False,
      current_action = FPI_DEVICE_ACTION_NONE, current_task = None,
      suspend_resume_task = None, current_cancellable = None,
      current_cancellable_id = False, current_task_cancellable_id = False,
      current_idle_cancel_source = False, critical_section = 0, cancel_queued = False,
      wait_for_finger = False, finger_status = {FP_FINGER_STATUS_PRESENT},
      temp_current = FP_TEMPERATURE_COLD, temp_last_active = False\<rparr>"

definition example_update_temp :: "bool \<Rightarrow> FpDevicePrivate \<Rightarrow> FpDevicePrivate" where
  "example_update_temp is_active s = s\<lparr>temp_last_active := is_active\<rparr>"

definition example_print :: FpPrint where
  "example_print =
     \<lparr>fpi_type = FPI_PRINT_UNDEFINED, print_driver = ''mafpmoc'', print_device_id = ''0''\<rparr>"

text \<open>The same device with an enroll in flight, and with its sensor hot.\<close>

definition pending_dev :: FpDevicePrivate where
  "pending_dev =
     example_dev\<lparr>current_action := FPI_DEVICE_ACTION_ENROLL,
                 current_task := Some \<lparr>task_cancellable = None,
                                       task_data = Some (FpEnrollData example_print)\<rparr>,
                 current_cancellable := Some (GCancellable False),
                 current_cancellable_id := True\<rparr>"

definition hot_dev :: FpDevicePrivate where
  "hot_dev = example_dev\<lparr>temp_current := FP_TEMPERATURE_HOT\<rparr>"

section \<open>Entry checks shared by the public entry points\<close>

lemma not_cancelled:
  "c \<noteq> Some (GCancellable True) \<Longrightarrow> \<not> g_task_return_error_if_cancelled (g_task_new c)"
proof (cases c)
  case None
  then show ?thesis
    by (simp add: g_task_return_error_if_cancelled_def g_task_new_def)
next
  case (Some x)
  assume "c \<noteq> Some (GCancellable True)"
  with Some have "x \<noteq> GCancellable True" by simp
  then have "\<not> g_cancellable_is_cancelled x" by (cases x) simp
  with Some show ?thesis
    by (simp add: g_task_return_error_if_cancelled_def g_task_new_def)
qed

lemma cancelled:
  "g_cancellable_is_cancelled x \<Longrightarrow> g_task_return_error_if_cancelled (g_task_new (Some x))"
  by (simp add: g_task_return_error_if_cancelled_def g_task_new_def)

lemmas biometric_defs =
  fp_device_enroll_def fp_device_verify_def fp_device_identify_def fp_device_capture_def

lemmas storage_defs =
  fp_device_delete_print_def fp_device_list_prints_def fp_device_clear_storage_def

section \<open>A second call while an operation is pending\<close>

text \<open>
  C1, as the code has it. An operation is pending and the cancellable of the second call
  is not already cancelled. Then the second call is resolved at once with an error, the
  private state is returned as it was and no driver entry point is called. The error is
  "busy" for \<open>open\<close> when the device is not open and for the other eight entry points
  when it is open; \<open>open\<close> on an open device is refused with "already open" and the
  others on a device that is not open with "not open", because openness is tested first.
\<close>

theorem second_call_while_pending:
  assumes "current_task s \<noteq> None" and "c \<noteq> Some (GCancellable True)"
  shows "fp_device_open cls usb_ok c s =
           ([Task_return_error (if is_open s then FP_DEVICE_ERROR_ALREADY_OPEN
                                else FP_DEVICE_ERROR_BUSY)], s)
       \<and> fp_device_close cls c s =
           ([Task_return_error (if is_open s then FP_DEVICE_ERROR_BUSY
                                else FP_DEVICE_ERROR_NOT_OPEN)], s)
       \<and> fp_device_enroll upd cls template_print c s =
           ([Task_return_error (if is_open s then FP_DEVICE_ERROR_BUSY
                                else FP_DEVICE_ERROR_NOT_OPEN)], s)
       \<and> fp_device_verify upd cls enrolled_print c s =
           ([Task_return_error (if is_open s then FP_DEVICE_ERROR_BUSY
                                else FP_DEVICE_ERROR_NOT_OPEN)], s)
       \<and> fp_device_identify upd cls prints c s =
           ([Task_return_error (if is_open s then FP_DEVICE_ERROR_BUSY
                                else FP_DEVICE_ERROR_NOT_OPEN)], s)
       \<and> fp_device_capture upd cls wait c s =
           ([Task_return_error (if is_open s then FP_DEVICE_ERROR_BUSY
                                else FP_DEVICE_ERROR_NOT_OPEN)], s)
       \<and> fp_device_delete_print cls enrolled_print c s =
           ([Task_return_error (if is_open s then FP_DEVICE_ERROR_BUSY
                                else FP_DEVICE_ERROR_NOT_OPEN)], s)
       \<and> fp_device_list_prints cls c s =
           ([Task_return_error (if is_open s then FP_DEVICE_ERROR_BUSY
                                else FP_DEVICE_ERROR_NOT_OPEN)], s)
       \<and> fp_device_clear_storage cls c s =
           ([Task_return_error (if is_open s then FP_DEVICE_ERROR_BUSY
                                else FP_DEVICE_ERROR_NOT_OPEN)], s)"
proof -
  have nc: "\<not> g_task_return_error_if_cancelled (g_task_new c)"
    using assms(2) by (rule not_cancelled)
  have "fp_device_open cls usb_ok c s =
           ([Task_return_error (if is_open s then FP_DEVICE_ERROR_ALREADY_OPEN
                                else FP_DEVICE_ERROR_BUSY)], s)"
    using assms(1) nc by (simp add: fp_device_open_def Let_def)
  moreover have "fp_device_close cls c s =
           ([Task_return_error (if is_open s then FP_DEVICE_ERROR_BUSY
                                else FP_DEVICE_ERROR_NOT_OPEN)], s)"
    using assms(1) nc by (simp add: fp_device_close_def Let_def)
  moreover have "fp_device_enroll upd cls template_print c s =
           ([Task_return_error (if is_open s then FP_DEVICE_ERROR_BUSY
                                else FP_DEVICE_ERROR_NOT_OPEN)], s)"
    using assms(1) nc by (simp add: fp_device_enroll_def Let_def)
  moreover have "fp_device_verify upd cls enrolled_print c s =
           ([Task_return_error (if is_open s then FP_DEVICE_ERROR_BUSY
                                else FP_DEVICE_ERROR_NOT_OPEN)], s)"
    using assms(1) nc by (simp add: fp_device_verify_def Let_def)
  moreover have "fp_device_identify upd cls prints c s =
           ([Task_return_error (if is_open s then FP_DEVICE_ERROR_BUSY
                                else FP_DEVICE_ERROR_NOT_OPEN)], s)"
    using assms(1) nc by (simp add: fp_device_identify_def Let_def)
  moreover have "fp_device_capture upd cls wait c s =
           ([Task_return_error (if is_open s then FP_DEVICE_ERROR_BUSY
                                else FP_DEVICE_ERROR_NOT_OPEN)], s)"
    using assms(1) nc by (simp add: fp_device_capture_def Let_def)
  moreover have "fp_device_delete_print cls enrolled_print c s =
           ([Task_return_error (if is_open s then FP_DEVICE_ERROR_BUSY
                                else FP_DEVICE_ERROR_NOT_OPEN)], s)"
    using assms(1) nc by (simp add: fp_device_delete_print_def Let_def)
  moreover have "fp_device_list_prints cls c s =
           ([Task_return_error (if is_open s then FP_DEVICE_ERROR_BUSY
                                else FP_DEVICE_ERROR_NOT_OPEN)], s)"
    using assms(1) nc by (simp add: fp_device_list_prints_def Let_def)
  moreover have "fp_device_clear_storage cls c s =
           ([Task_return_error (if is_open s then FP_DEVICE_ERROR_BUSY
                                else FP_DEVICE_ERROR_NOT_OPEN)], s)"
    using assms(1) nc by (simp add: fp_device_clear_storage_def Let_def)
  ultimately show ?thesis by simp
qed

theorem second_call_while_pending_witness:
  "current_task pending_dev \<noteq> None
   \<and> fp_device_close example_cls None pending_dev =
       ([Task_return_error FP_DEVICE_ERROR_BUSY], pending_dev)
   \<and> fp_device_verify example_update_temp example_cls (Some example_print) None pending_dev =
       ([Task_return_error FP_DEVICE_ERROR_BUSY], pending_dev)
   \<and> fp_device_clear_storage example_cls None pending_dev =
       ([Task_return_error FP_DEVICE_ERROR_BUSY], pending_dev)
   \<and> fp_device_open example_cls True None (pending_dev\<lparr>is_open := False\<rparr>) =
       ([Task_return_error FP_DEVICE_ERROR_BUSY], pending_dev\<lparr>is_open := False\<rparr>)"
proof -
  have p: "current_task pending_dev \<noteq> None"
    by (simp add: pending_dev_def)
  have q: "current_task (pending_dev\<lparr>is_open := False\<rparr>) \<noteq> None"
    by (simp add: pending_dev_def)
  have o: "is_open pending_dev"
    by (simp add: pending_dev_def example_dev_def)
  have n: "None \<noteq> Some (GCancellable True)"
    by simp
  show ?thesis
    using p o
      second_call_while_pending [OF p n, where cls = example_cls and upd = example_update_temp
        and enrolled_print = "Some example_print"]
      second_call_while_pending [OF q n, where cls = example_cls and usb_ok = True]
    by simp
qed

text \<open>
  C1 as stated fails for \<open>open\<close>: with an enroll pending on an open device, a second
  \<open>open\<close> is refused with "already open", not with "busy".
\<close>

theorem open_while_pending_is_already_open:
  "current_task pending_dev \<noteq> None
   \<and> fp_device_open example_cls True None pending_dev =
       ([Task_return_error FP_DEVICE_ERROR_ALREADY_OPEN], pending_dev)
   \<and> fst (fp_device_open example_cls True None pending_dev) \<noteq>
       [Task_return_error FP_DEVICE_ERROR_BUSY]"
  by (simp add: fp_device_open_def g_task_new_def g_task_return_error_if_cancelled_def
      pending_dev_def example_dev_def)

section \<open>The thermal gate\<close>

text \<open>
  C2, as the code has it. The device is open, idle and not suspended, the cancellable is
  not already cancelled, the driver supports the action and the arguments are valid.
  The entry point first tells the temperature model that the sensor becomes active; if
  the thermal state it then reads is "hot", the call is resolved with "too hot", no
  driver entry point is called, and the temperature model is told that the sensor is
  inactive again, which is the only change to the state.
\<close>

theorem too_hot_gate:
  assumes "is_open s" and "current_task s = None" and "\<not> is_suspended s"
      and "c \<noteq> Some (GCancellable True)"
      and "temp_current (upd True s) = FP_TEMPERATURE_HOT"
  shows "(fpi_type p = FPI_PRINT_UNDEFINED
            \<or> fp_device_has_feature s {FP_DEVICE_FEATURE_UPDATE_PRINT}
               \<and> fp_print_compatible cls p s
          \<longrightarrow> fp_device_enroll upd cls (Some p) c s =
                ([Update_temp True, Task_return_error FP_DEVICE_ERROR_TOO_HOT, Update_temp False],
                 upd False (upd True s)))
       \<and> (cls_verify cls \<noteq> None \<and> FP_DEVICE_FEATURE_VERIFY \<in> features s
          \<longrightarrow> fp_device_verify upd cls enrolled_print c s =
                ([Update_temp True, Task_return_error FP_DEVICE_ERROR_TOO_HOT, Update_temp False],
                 upd False (upd True s)))
       \<and> (cls_identify cls \<noteq> None \<and> FP_DEVICE_FEATURE_IDENTIFY \<in> features s
          \<longrightarrow> fp_device_identify upd cls (Some gallery) c s =
                ([Update_temp True, Task_return_error FP_DEVICE_ERROR_TOO_HOT, Update_temp False],
                 upd False (upd True s)))
       \<and> (cls_capture cls \<noteq> None \<and> FP_DEVICE_FEATURE_CAPTURE \<in> features s
          \<longrightarrow> fp_device_capture upd cls wait c s =
                ([Update_temp True, Task_return_error FP_DEVICE_ERROR_TOO_HOT, Update_temp False],
                 upd False (upd True s)))"
proof -
  have nc: "\<not> g_task_return_error_if_cancelled (g_task_new c)"
    using assms(4) by (rule not_cancelled)
  have enroll: "fpi_type p = FPI_PRINT_UNDEFINED
            \<or> fp_device_has_feature s {FP_DEVICE_FEATURE_UPDATE_PRINT}
               \<and> fp_print_compatible cls p s
          \<longrightarrow> fp_device_enroll upd cls (Some p) c s =
                ([Update_temp True, Task_return_error FP_DEVICE_ERROR_TOO_HOT, Update_temp False],
                 upd False (upd True s))"
    using assms(1,2,3,5) nc by (auto simp: fp_device_enroll_def Let_def)
  have verify: "cls_verify cls \<noteq> None \<and> FP_DEVICE_FEATURE_VERIFY \<in> features s
          \<longrightarrow> fp_device_verify upd cls enrolled_print c s =
                ([Update_temp True, Task_return_error FP_DEVICE_ERROR_TOO_HOT, Update_temp False],
                 upd False (upd True s))"
    using assms(1,2,3,5) nc by (auto simp: fp_device_verify_def Let_def)
  have identify: "cls_identify cls \<noteq> None \<and> FP_DEVICE_FEATURE_IDENTIFY \<in> features s
          \<longrightarrow> fp_device_identify upd cls (Some gallery) c s =
                ([Update_temp True, Task_return_error FP_DEVICE_ERROR_TOO_HOT, Update_temp False],
                 upd False (upd True s))"
    using assms(1,2,3,5) nc by (auto simp: fp_device_identify_def Let_def)
  have capture: "cls_capture cls \<noteq> None \<and> FP_DEVICE_FEATURE_CAPTURE \<in> features s
          \<longrightarrow> fp_device_capture upd cls wait c s =
                ([Update_temp True, Task_return_error FP_DEVICE_ERROR_TOO_HOT, Update_temp False],
                 upd False (upd True s))"
    using assms(1,2,3,5) nc by (auto simp: fp_device_capture_def Let_def)
  from enroll verify identify capture show ?thesis by blast
qed

theorem too_hot_gate_witness:
  "temp_current (example_update_temp True hot_dev) = FP_TEMPERATURE_HOT
   \<and> fp_device_enroll example_update_temp example_cls (Some example_print) None hot_dev =
       ([Update_temp True, Task_return_error FP_DEVICE_ERROR_TOO_HOT, Update_temp False], hot_dev)
   \<and> fp_device_verify example_update_temp example_cls (Some example_print) None hot_dev =
       ([Update_temp True, Task_return_error FP_DEVICE_ERROR_TOO_HOT, Update_temp False], hot_dev)
   \<and> fp_device_identify example_update_temp example_cls (Some [example_print]) None hot_dev =
       ([Update_temp True, Task_return_error FP_DEVICE_ERROR_TOO_HOT, Update_temp False], hot_dev)
   \<and> fp_device_capture example_update_temp example_cls True None hot_dev =
       ([Update_temp True, Task_return_error FP_DEVICE_ERROR_TOO_HOT, Update_temp False], hot_dev)"
proof -
  have a: "is_open hot_dev" "current_task hot_dev = None" "\<not> is_suspended hot_dev"
    by (simp_all add: hot_dev_def example_dev_def)
  have n: "None \<noteq> Some (GCancellable True)"
    by simp
  have h: "temp_current (example_update_temp True hot_dev) = FP_TEMPERATURE_HOT"
    by (simp add: example_update_temp_def hot_dev_def)
  have undone: "example_update_temp False (example_update_temp True hot_dev) = hot_dev"
    by (simp add: example_update_temp_def hot_dev_def example_dev_def)
  have sup: "fpi_type example_print = FPI_PRINT_UNDEFINED"
    "cls_verify example_cls \<noteq> None" "cls_identify example_cls \<noteq> None"
    "cls_capture example_cls \<noteq> None"
    "FP_DEVICE_FEATURE_VERIFY \<in> features hot_dev"
    "FP_DEVICE_FEATURE_IDENTIFY \<in> features hot_dev"
    "FP_DEVICE_FEATURE_CAPTURE \<in> features hot_dev"
    by (simp_all add: example_print_def example_cls_def hot_dev_def example_dev_def)
  show ?thesis
    using h undone sup
      too_hot_gate [where s = hot_dev and upd = example_update_temp and c = None
        and p = example_print and cls = example_cls
        and enrolled_print = "Some example_print" and gallery = "[example_print]"
        and wait = True, OF a n h]
    by simp
qed

text \<open>
  C2 as stated fails on an open, idle, hot device that is suspended (the call is refused
  with "busy" before the temperature is looked at) and on one whose driver has no
  \<open>verify\<close> entry point (the call is refused with "not supported").
\<close>

theorem hot_but_suspended_or_unsupported:
  "is_open (hot_dev\<lparr>is_suspended := True\<rparr>)
   \<and> current_task (hot_dev\<lparr>is_suspended := True\<rparr>) = None
   \<and> temp_current (hot_dev\<lparr>is_suspended := True\<rparr>) = FP_TEMPERATURE_HOT
   \<and> fp_device_enroll example_update_temp example_cls (Some example_print) None
         (hot_dev\<lparr>is_suspended := True\<rparr>) =
       ([Task_return_error FP_DEVICE_ERROR_BUSY], hot_dev\<lparr>is_suspended := True\<rparr>)
   \<and> is_open hot_dev \<and> current_task hot_dev = None
   \<and> temp_current hot_dev = FP_TEMPERATURE_HOT
   \<and> fp_device_verify example_update_temp (example_cls\<lparr>cls_verify := None\<rparr>)
         (Some example_print) None hot_dev =
       ([Task_return_error FP_DEVICE_ERROR_NOT_SUPPORTED], hot_dev)"
  by (simp add: fp_device_enroll_def fp_device_verify_def g_task_new_def
      g_task_return_error_if_cancelled_def hot_dev_def example_dev_def example_cls_def)

section \<open>Calls on a suspended device\<close>

text \<open>
  C3 at the input where the code departs from it: on an open, idle, suspended device whose
  storage can be cleared, \<open>clear_storage\<close> is not refused. It records itself as the
  active operation and calls the driver.
\<close>

theorem clear_storage_runs_while_suspended:
  "is_open (example_dev\<lparr>is_suspended := True\<rparr>)
   \<and> is_suspended (example_dev\<lparr>is_suspended := True\<rparr>)
   \<and> current_task (example_dev\<lparr>is_suspended := True\<rparr>) = None
   \<and> fp_device_clear_storage example_cls None (example_dev\<lparr>is_suspended := True\<rparr>) =
       ([Driver_call Vf_clear_storage],
        example_dev\<lparr>is_suspended := True,
                    current_action := FPI_DEVICE_ACTION_CLEAR_STORAGE,
                    current_task := Some \<lparr>task_cancellable = None, task_data = None\<rparr>,
                    current_cancellable := Some (GCancellable False),
                    current_cancellable_id := True\<rparr>)"
  by (simp add: fp_device_clear_storage_def setup_task_cancellable_def g_task_new_def
      g_task_return_error_if_cancelled_def example_dev_def example_cls_def)

text \<open>The sibling entry points refuse the same device with "busy".\<close>

lemma siblings_busy_while_suspended:
  assumes "is_open s" and "is_suspended s" and "c \<noteq> Some (GCancellable True)"
  shows "fp_device_close cls c s = ([Task_return_error FP_DEVICE_ERROR_BUSY], s)"
    and "fp_device_enroll upd cls template_print c s = ([Task_return_error FP_DEVICE_ERROR_BUSY], s)"
    and "fp_device_verify upd cls enrolled_print c s = ([Task_return_error FP_DEVICE_ERROR_BUSY], s)"
    and "fp_device_identify upd cls prints c s = ([Task_return_error FP_DEVICE_ERROR_BUSY], s)"
    and "fp_device_capture upd cls wait c s = ([Task_return_error FP_DEVICE_ERROR_BUSY], s)"
    and "fp_device_delete_print cls enrolled_print c s = ([Task_return_error FP_DEVICE_ERROR_BUSY], s)"
    and "fp_device_list_prints cls c s = ([Task_return_error FP_DEVICE_ERROR_BUSY], s)"
  using assms(1,2) not_cancelled [OF assms(3)]
  by (simp_all add: fp_device_close_def biometric_defs storage_defs Let_def)

section \<open>The idle cancellation callback\<close>

text \<open>
  C4, as the code has it. The driver has a cancel hook and an operation is active; the
  internal cancellable has fired and the idle callback it scheduled runs. Inside a
  critical section the callback queues the cancel and does not call the hook; outside
  one it calls the hook. In both cases it then reports finger status "none", whatever the
  status was and whatever the hook did to it: in the deferred case the status is cleared
  although the hook has not run.
\<close>

theorem cancel_in_idle:
  assumes "cls_cancel cls = Some cancel" and "current_action s \<noteq> FPI_DEVICE_ACTION_NONE"
  shows "fp_device_cancel_in_idle_cb cls (fp_device_cancelled_cb s) =
           (if critical_section s \<noteq> 0
            then Some ([Report_finger_status FP_FINGER_STATUS_NONE],
                       s\<lparr>current_idle_cancel_source := False, cancel_queued := True,
                         finger_status := FP_FINGER_STATUS_NONE\<rparr>)
            else Some ([Driver_call Vf_cancel, Report_finger_status FP_FINGER_STATUS_NONE],
                       (cancel (s\<lparr>current_idle_cancel_source := False\<rparr>))
                         \<lparr>finger_status := FP_FINGER_STATUS_NONE\<rparr>))"
  using assms
  by (simp add: fp_device_cancel_in_idle_cb_def fp_device_cancelled_cb_def
      fpi_device_report_finger_status_def Let_def)

theorem cancel_in_idle_witness:
  "fp_device_cancel_in_idle_cb example_cls (fp_device_cancelled_cb pending_dev) =
     Some ([Driver_call Vf_cancel, Report_finger_status FP_FINGER_STATUS_NONE],
           pending_dev\<lparr>finger_status := FP_FINGER_STATUS_NONE\<rparr>)
   \<and> fp_device_cancel_in_idle_cb example_cls
       (fp_device_cancelled_cb (pending_dev\<lparr>critical_section := 1\<rparr>)) =
     Some ([Report_finger_status FP_FINGER_STATUS_NONE],
           pending_dev\<lparr>critical_section := 1, cancel_queued := True,
                       finger_status := FP_FINGER_STATUS_NONE\<rparr>)"
proof -
  have c: "cls_cancel example_cls = Some id"
    by (simp add: example_cls_def)
  have a: "current_action pending_dev \<noteq> FPI_DEVICE_ACTION_NONE"
    "current_action (pending_dev\<lparr>critical_section := 1\<rparr>) \<noteq> FPI_DEVICE_ACTION_NONE"
    by (simp_all add: pending_dev_def)
  show ?thesis
    using cancel_in_idle [OF c a(1)] cancel_in_idle [OF c a(2)]
    by (simp add: pending_dev_def example_dev_def)
qed

text \<open>
  C4 as stated fails inside a critical section: the cancel hook is not called, and the
  finger status, "present" before, is "none" afterwards.
\<close>

theorem finger_status_cleared_without_cancel_hook:
  "critical_section (pending_dev\<lparr>critical_section := 1\<rparr>) \<noteq> 0
   \<and> finger_status (pending_dev\<lparr>critical_section := 1\<rparr>) = {FP_FINGER_STATUS_PRESENT}
   \<and> fp_device_cancel_in_idle_cb example_cls
       (fp_device_cancelled_cb (pending_dev\<lparr>critical_section := 1\<rparr>)) =
     Some ([Report_finger_status {}],
           pending_dev\<lparr>critical_section := 1, cancel_queued := True, finger_status := {}\<rparr>)"
  by (simp add: fp_device_cancel_in_idle_cb_def fp_device_cancelled_cb_def
      fpi_device_report_finger_status_def FP_FINGER_STATUS_NONE_def
      pending_dev_def example_dev_def example_cls_def)

section \<open>Enroll before and after open\<close>

text \<open>
  C5. With a cancellable that is not already cancelled, enroll on a device that is not
  open is resolved with "not open", the state is untouched and the driver is not called.
  On a device that is open, idle, not suspended and not hot when the gate reads the
  temperature, the same call with a fresh template tells the temperature model that the
  sensor becomes active, records enroll as the active operation with the task of this
  call (holding the template), and calls the driver's enroll entry point on that state.
\<close>

theorem enroll_needs_open:
  assumes "c \<noteq> Some (GCancellable True)"
      and "\<not> is_open s"
      and "is_open s'" and "current_task s' = None" and "\<not> is_suspended s'"
      and "temp_current (upd True s') \<noteq> FP_TEMPERATURE_HOT"
      and "fpi_type p = FPI_PRINT_UNDEFINED"
  shows "fp_device_enroll upd cls (Some p) c s =
           ([Task_return_error FP_DEVICE_ERROR_NOT_OPEN], s)
       \<and> (let handed =
                g_task_set_task_data (FpEnrollData p)
                  (setup_task_cancellable cls
                    ((upd True s')\<lparr>current_action := FPI_DEVICE_ACTION_ENROLL,
                                   current_task := Some (g_task_new c)\<rparr>))
          in fp_device_enroll upd cls (Some p) c s' =
               ([Update_temp True, Driver_call Vf_enroll], cls_enroll cls handed)
             \<and> current_action handed = FPI_DEVICE_ACTION_ENROLL
             \<and> current_task handed =
                 Some \<lparr>task_cancellable = c, task_data = Some (FpEnrollData p)\<rparr>
             \<and> current_cancellable handed = Some (GCancellable False))"
proof -
  have nc: "\<not> g_task_return_error_if_cancelled (g_task_new c)"
    using assms(1) by (rule not_cancelled)
  have closed: "fp_device_enroll upd cls (Some p) c s =
           ([Task_return_error FP_DEVICE_ERROR_NOT_OPEN], s)"
    using assms(2) nc by (simp add: fp_device_enroll_def Let_def)
  have opened: "fp_device_enroll upd cls (Some p) c s' =
      ([Update_temp True, Driver_call Vf_enroll],
       cls_enroll cls
         (g_task_set_task_data (FpEnrollData p)
           (setup_task_cancellable cls
             ((upd True s')\<lparr>current_action := FPI_DEVICE_ACTION_ENROLL,
                            current_task := Some (g_task_new c)\<rparr>))))"
    using assms(3-7) nc by (simp add: fp_device_enroll_def Let_def)
  have slot: "current_action
      (g_task_set_task_data (FpEnrollData p)
        (setup_task_cancellable cls
          ((upd True s')\<lparr>current_action := FPI_DEVICE_ACTION_ENROLL,
                         current_task := Some (g_task_new c)\<rparr>))) = FPI_DEVICE_ACTION_ENROLL"
    "current_task
      (g_task_set_task_data (FpEnrollData p)
        (setup_task_cancellable cls
          ((upd True s')\<lparr>current_action := FPI_DEVICE_ACTION_ENROLL,
                         current_task := Some (g_task_new c)\<rparr>))) =
       Some \<lparr>task_cancellable = c, task_data = Some (FpEnrollData p)\<rparr>"
    "current_cancellable
      (g_task_set_task_data (FpEnrollData p)
        (setup_task_cancellable cls
          ((upd True s')\<lparr>current_action := FPI_DEVICE_ACTION_ENROLL,
                         current_task := Some (g_task_new c)\<rparr>))) = Some (GCancellable False)"
    by (simp_all add: g_task_set_task_data_def setup_task_cancellable_def g_task_new_def Let_def)
  from closed opened slot show ?thesis
    by (simp only: Let_def simp_thms)
qed

theorem enroll_needs_open_witness:
  "fp_device_enroll example_update_temp example_cls (Some example_print) None
       (example_dev\<lparr>is_open := False\<rparr>) =
     ([Task_return_error FP_DEVICE_ERROR_NOT_OPEN], example_dev\<lparr>is_open := False\<rparr>)
   \<and> fp_device_enroll example_update_temp example_cls (Some example_print) None example_dev =
     ([Update_temp True, Driver_call Vf_enroll],
      example_dev\<lparr>current_action := FPI_DEVICE_ACTION_ENROLL,
                  current_task := Some \<lparr>task_cancellable = None,
                                        task_data = Some (FpEnrollData example_print)\<rparr>,
                  current_cancellable := Some (GCancellable False),
                  current_cancellable_id := True,
                  temp_last_active := True\<rparr>)"
proof -
  have n: "None \<noteq> Some (GCancellable True)"
    by simp
  have a: "\<not> is_open (example_dev\<lparr>is_open := False\<rparr>)"
    "is_open example_dev" "current_task example_dev = None" "\<not> is_suspended example_dev"
    "temp_current (example_update_temp True example_dev) \<noteq> FP_TEMPERATURE_HOT"
    "fpi_type example_print = FPI_PRINT_UNDEFINED"
    by (simp_all add: example_dev_def example_update_temp_def example_print_def)
  show ?thesis
    using enroll_needs_open [where upd = example_update_temp and cls = example_cls, OF n a]
    by (simp add: Let_def g_task_set_task_data_def setup_task_cancellable_def g_task_new_def
        example_dev_def example_update_temp_def example_cls_def)
qed

section \<open>Suspend and resume\<close>

text \<open>
  C6, as the code has it. Suspend is refused with "busy" when a suspend or resume is
  pending or the device is already suspended; otherwise it is refused with "removed"
  when the device has been removed; otherwise it stores its task and enters the suspend
  machinery. Resume is the same with "not suspended" in place of "already suspended".
  Neither reads the open flag, the active action or the active task.
\<close>

theorem suspend_resume_gate:
  "(suspend_resume_task s \<noteq> None \<or> is_suspended s
      \<longrightarrow> fp_device_suspend susp c s = ([Task_return_error FP_DEVICE_ERROR_BUSY], s))
   \<and> (suspend_resume_task s = None \<and> \<not> is_suspended s \<and> is_removed s
      \<longrightarrow> fp_device_suspend susp c s = ([Task_return_error FP_DEVICE_ERROR_REMOVED], s))
   \<and> (suspend_resume_task s = None \<and> \<not> is_suspended s \<and> \<not> is_removed s
      \<longrightarrow> fp_device_suspend susp c s =
            ([Call_fpi_device_suspend], susp (s\<lparr>suspend_resume_task := Some (g_task_new c)\<rparr>)))
   \<and> (suspend_resume_task s \<noteq> None \<or> \<not> is_suspended s
      \<longrightarrow> fp_device_resume res c s = ([Task_return_error FP_DEVICE_ERROR_BUSY], s))
   \<and> (suspend_resume_task s = None \<and> is_suspended s \<and> is_removed s
      \<longrightarrow> fp_device_resume res c s = ([Task_return_error FP_DEVICE_ERROR_REMOVED], s))
   \<and> (suspend_resume_task s = None \<and> is_suspended s \<and> \<not> is_removed s
      \<longrightarrow> fp_device_resume res c s =
            ([Call_fpi_device_resume], res (s\<lparr>suspend_resume_task := Some (g_task_new c)\<rparr>)))
   \<and> fst (fp_device_suspend susp c (s\<lparr>is_open := b, current_action := a, current_task := t\<rparr>)) =
       fst (fp_device_suspend susp c s)
   \<and> fst (fp_device_resume res c (s\<lparr>is_open := b, current_action := a, current_task := t\<rparr>)) =
       fst (fp_device_resume res c s)"
  by (simp add: fp_device_suspend_def fp_device_resume_def Let_def)

theorem suspend_resume_gate_witness:
  "fp_device_suspend id None (example_dev\<lparr>is_removed := True\<rparr>) =
     ([Task_return_error FP_DEVICE_ERROR_REMOVED], example_dev\<lparr>is_removed := True\<rparr>)
   \<and> fp_device_suspend id None (example_dev\<lparr>is_suspended := True\<rparr>) =
     ([Task_return_error FP_DEVICE_ERROR_BUSY], example_dev\<lparr>is_suspended := True\<rparr>)
   \<and> fp_device_suspend id None pending_dev =
     ([Call_fpi_device_suspend], pending_dev\<lparr>suspend_resume_task := Some (g_task_new None)\<rparr>)
   \<and> fp_device_resume id None example_dev =
     ([Task_return_error FP_DEVICE_ERROR_BUSY], example_dev)
   \<and> fp_device_resume id None (example_dev\<lparr>is_suspended := True, is_removed := True\<rparr>) =
     ([Task_return_error FP_DEVICE_ERROR_REMOVED],
      example_dev\<lparr>is_suspended := True, is_removed := True\<rparr>)"
  using suspend_resume_gate [of "example_dev\<lparr>is_removed := True\<rparr>" id None]
    suspend_resume_gate [of "example_dev\<lparr>is_suspended := True\<rparr>" id None]
    suspend_resume_gate [of pending_dev id None]
    suspend_resume_gate [of example_dev _ _ id]
    suspend_resume_gate [of "example_dev\<lparr>is_suspended := True, is_removed := True\<rparr>" _ None id]
  by (simp add: pending_dev_def example_dev_def)

text \<open>
  C6 as stated fails where both reasons apply: a removed device that is already suspended
  refuses suspend with "busy", and a removed device that is not suspended refuses resume
  with "busy", not with "removed".
\<close>

theorem removed_device_gets_busy:
  "is_removed (example_dev\<lparr>is_removed := True, is_suspended := True\<rparr>)
   \<and> fp_device_suspend id None (example_dev\<lparr>is_removed := True, is_suspended := True\<rparr>) =
       ([Task_return_error FP_DEVICE_ERROR_BUSY],
        example_dev\<lparr>is_removed := True, is_suspended := True\<rparr>)
   \<and> is_removed (example_dev\<lparr>is_removed := True\<rparr>)
   \<and> fp_device_resume id None (example_dev\<lparr>is_removed := True\<rparr>) =
       ([Task_return_error FP_DEVICE_ERROR_BUSY], example_dev\<lparr>is_removed := True\<rparr>)"
  by (simp add: fp_device_suspend_def fp_device_resume_def example_dev_def)

section \<open>Open, close and list are not gated by temperature\<close>

text \<open>
  C7. For every state, driver and cancellable, \<open>open\<close>, \<open>close\<close> and \<open>list\<close> never call
  the temperature model and never resolve with "too hot"; what they do does not depend on
  the thermal state; and the state they return is either the state they were given or
  the driver's entry point applied to a state with the same thermal state.
\<close>

theorem no_thermal_gate_for_open_close_list:
  "Update_temp True \<notin> set (fst (fp_device_open cls usb_ok c s))
   \<and> Update_temp False \<notin> set (fst (fp_device_open cls usb_ok c s))
   \<and> Task_return_error FP_DEVICE_ERROR_TOO_HOT \<notin> set (fst (fp_device_open cls usb_ok c s))
   \<and> fst (fp_device_open cls usb_ok c (s\<lparr>temp_current := t\<rparr>)) =
       fst (fp_device_open cls usb_ok c s)
   \<and> (let handed =
            fpi_device_report_finger_status FP_FINGER_STATUS_NONE
              (setup_task_cancellable cls
                (s\<lparr>current_action := FPI_DEVICE_ACTION_OPEN,
                   current_task := Some (g_task_new c)\<rparr>))
      in temp_current handed = temp_current s
         \<and> (snd (fp_device_open cls usb_ok c s) = s
            \<or> snd (fp_device_open cls usb_ok c s) = cls_open cls handed))
   \<and> Update_temp True \<notin> set (fst (fp_device_close cls c s))
   \<and> Update_temp False \<notin> set (fst (fp_device_close cls c s))
   \<and> Task_return_error FP_DEVICE_ERROR_TOO_HOT \<notin> set (fst (fp_device_close cls c s))
   \<and> fst (fp_device_close cls c (s\<lparr>temp_current := t\<rparr>)) = fst (fp_device_close cls c s)
   \<and> (let handed =
            setup_task_cancellable cls
              (s\<lparr>current_action := FPI_DEVICE_ACTION_CLOSE,
                 current_task := Some (g_task_new c)\<rparr>)
      in temp_current handed = temp_current s
         \<and> (snd (fp_device_close cls c s) = s
            \<or> snd (fp_device_close cls c s) = cls_close cls handed))
   \<and> Update_temp True \<notin> set (fst (fp_device_list_prints cls c s))
   \<and> Update_temp False \<notin> set (fst (fp_device_list_prints cls c s))
   \<and> Task_return_error FP_DEVICE_ERROR_TOO_HOT \<notin> set (fst (fp_device_list_prints cls c s))
   \<and> fst (fp_device_list_prints cls c (s\<lparr>temp_current := t\<rparr>)) =
       fst (fp_device_list_prints cls c s)
   \<and> (let handed =
            setup_task_cancellable cls
              (s\<lparr>current_action := FPI_DEVICE_ACTION_LIST,
                 current_task := Some (g_task_new c)\<rparr>)
      in temp_current handed = temp_current s
         \<and> (snd (fp_device_list_prints cls c s) = s
            \<or> (\<exists>list. cls_list cls = Some list
                  \<and> snd (fp_device_list_prints cls c s) = list handed)))"
proof -
  have temp: "temp_current (setup_task_cancellable cls x) = temp_current x" for x
    by (simp add: setup_task_cancellable_def Let_def)
  have op: "Update_temp True \<notin> set (fst (fp_device_open cls usb_ok c s))"
    "Update_temp False \<notin> set (fst (fp_device_open cls usb_ok c s))"
    "Task_return_error FP_DEVICE_ERROR_TOO_HOT \<notin> set (fst (fp_device_open cls usb_ok c s))"
    "fst (fp_device_open cls usb_ok c (s\<lparr>temp_current := t\<rparr>)) =
       fst (fp_device_open cls usb_ok c s)"
    by (simp_all add: fp_device_open_def Let_def)
  have op_state: "snd (fp_device_open cls usb_ok c s) = s
      \<or> snd (fp_device_open cls usb_ok c s) =
          cls_open cls (fpi_device_report_finger_status FP_FINGER_STATUS_NONE
            (setup_task_cancellable cls
              (s\<lparr>current_action := FPI_DEVICE_ACTION_OPEN,
                 current_task := Some (g_task_new c)\<rparr>)))"
    by (simp add: fp_device_open_def Let_def)
  have op_temp: "temp_current (fpi_device_report_finger_status FP_FINGER_STATUS_NONE
            (setup_task_cancellable cls
              (s\<lparr>current_action := FPI_DEVICE_ACTION_OPEN,
                 current_task := Some (g_task_new c)\<rparr>))) = temp_current s"
    by (simp add: fpi_device_report_finger_status_def temp)
  have cl: "Update_temp True \<notin> set (fst (fp_device_close cls c s))"
    "Update_temp False \<notin> set (fst (fp_device_close cls c s))"
    "Task_return_error FP_DEVICE_ERROR_TOO_HOT \<notin> set (fst (fp_device_close cls c s))"
    "fst (fp_device_close cls c (s\<lparr>temp_current := t\<rparr>)) = fst (fp_device_close cls c s)"
    by (simp_all add: fp_device_close_def Let_def)
  have cl_state: "snd (fp_device_close cls c s) = s
      \<or> snd (fp_device_close cls c s) =
          cls_close cls (setup_task_cancellable cls
              (s\<lparr>current_action := FPI_DEVICE_ACTION_CLOSE,
                 current_task := Some (g_task_new c)\<rparr>))"
    by (simp add: fp_device_close_def Let_def)
  have cl_temp: "temp_current (setup_task_cancellable cls
              (s\<lparr>current_action := FPI_DEVICE_ACTION_CLOSE,
                 current_task := Some (g_task_new c)\<rparr>)) = temp_current s"
    by (simp add: temp)
  have li: "Update_temp True \<notin> set (fst (fp_device_list_prints cls c s))"
    "Update_temp False \<notin> set (fst (fp_device_list_prints cls c s))"
    "Task_return_error FP_DEVICE_ERROR_TOO_HOT \<notin> set (fst (fp_device_list_prints cls c s))"
    "fst (fp_device_list_prints cls c (s\<lparr>temp_current := t\<rparr>)) =
       fst (fp_device_list_prints cls c s)"
    by (simp_all add: fp_device_list_prints_def Let_def split: option.splits)
  have li_state: "snd (fp_device_list_prints cls c s) = s
      \<or> (\<exists>list. cls_list cls = Some list
            \<and> snd (fp_device_list_prints cls c s) =
                list (setup_task_cancellable cls
                  (s\<lparr>current_action := FPI_DEVICE_ACTION_LIST,
                     current_task := Some (g_task_new c)\<rparr>)))"
    by (simp add: fp_device_list_prints_def Let_def split: option.splits)
  have li_temp: "temp_current (setup_task_cancellable cls
              (s\<lparr>current_action := FPI_DEVICE_ACTION_LIST,
                 current_task := Some (g_task_new c)\<rparr>)) = temp_current s"
    by (simp add: temp)
  from op op_state op_temp cl cl_state cl_temp li li_state li_temp show ?thesis
    by (simp only: Let_def simp_thms)
qed

theorem no_thermal_gate_witness:
  "fst (fp_device_open example_cls True None (hot_dev\<lparr>is_open := False\<rparr>)) =
     [Report_finger_status FP_FINGER_STATUS_NONE, Driver_call Vf_open]
   \<and> fst (fp_device_close example_cls None hot_dev) = [Driver_call Vf_close]
   \<and> fst (fp_device_list_prints example_cls None hot_dev) = [Driver_call Vf_list]
   \<and> Task_return_error FP_DEVICE_ERROR_TOO_HOT \<notin>
       set (fst (fp_device_open example_cls True None (hot_dev\<lparr>is_open := False\<rparr>)))
   \<and> Task_return_error FP_DEVICE_ERROR_TOO_HOT \<notin> set (fst (fp_device_close example_cls None hot_dev))
   \<and> Task_return_error FP_DEVICE_ERROR_TOO_HOT \<notin>
       set (fst (fp_device_list_prints example_cls None hot_dev))"
proof -
  have ev: "fst (fp_device_open example_cls True None (hot_dev\<lparr>is_open := False\<rparr>)) =
      [Report_finger_status FP_FINGER_STATUS_NONE, Driver_call Vf_open]"
    "fst (fp_device_close example_cls None hot_dev) = [Driver_call Vf_close]"
    "fst (fp_device_list_prints example_cls None hot_dev) = [Driver_call Vf_list]"
    by (simp_all add: fp_device_open_def fp_device_close_def fp_device_list_prints_def
        g_task_new_def g_task_return_error_if_cancelled_def Let_def
        hot_dev_def example_dev_def example_cls_def)
  have gate: "Task_return_error FP_DEVICE_ERROR_TOO_HOT \<notin>
       set (fst (fp_device_open example_cls True None (hot_dev\<lparr>is_open := False\<rparr>)))"
    "Task_return_error FP_DEVICE_ERROR_TOO_HOT \<notin> set (fst (fp_device_close example_cls None hot_dev))"
    "Task_return_error FP_DEVICE_ERROR_TOO_HOT \<notin>
       set (fst (fp_device_list_prints example_cls None hot_dev))"
    using no_thermal_gate_for_open_close_list
        [of example_cls True None "hot_dev\<lparr>is_open := False\<rparr>" FP_TEMPERATURE_COLD]
      no_thermal_gate_for_open_close_list
        [of example_cls True None hot_dev FP_TEMPERATURE_COLD]
    by blast+
  from ev gate show ?thesis
    by (simp only: simp_thms)
qed

section \<open>Wire format of the mafpmoc driver\<close>

text \<open>
  C8. The packet header is 9 bytes (the constant and the size of the header struct agree),
  the CRC 2 bytes and the USB buffer 512 bytes, so a frame carries at most
  512 - 9 - 2 = 501 bytes of payload. The template table has 256 slots, a UID is at most
  128 bytes and a serial number at most 32 bytes (the constants and the array members
  agree), and there are at most 10 enrolled fingers, 3 users and 16 notepad pages.
\<close>

theorem wire_format_constants:
  "PACKAGE_HEADER_SIZE = 9 \<and> sizeof pack_header = PACKAGE_HEADER_SIZE
   \<and> PACKAGE_CRC_SIZE = 2 \<and> MAFP_USB_BUFFER_SIZE = 512
   \<and> PACKAGE_DATA_SIZE_MAX = 512 - 9 - 2 \<and> PACKAGE_DATA_SIZE_MAX = 501
   \<and> PACKAGE_HEADER_SIZE + PACKAGE_DATA_SIZE_MAX + PACKAGE_CRC_SIZE = MAFP_USB_BUFFER_SIZE
   \<and> array_len mafp_tpl_table_t ''list'' = Some 256
   \<and> mafp_templates_t_total_list_len = 256
   \<and> TEMPLATE_UID_SIZE = 128
   \<and> array_len mafp_tpl_info_t ''uid'' = Some TEMPLATE_UID_SIZE
   \<and> array_len mafp_template_t ''uid'' = Some TEMPLATE_UID_SIZE
   \<and> DEVICE_SN_SIZE = 32
   \<and> array_len mafp_template_t ''sn'' = Some DEVICE_SN_SIZE
   \<and> MAX_FINGER_NUM = 10 \<and> mafp_templates_t_priv_list_len = 10
   \<and> MAX_USER_NUM = 3 \<and> MAX_NOTEPAD_PAGE = 16"
  by (simp add: PACKAGE_HEADER_SIZE_def PACKAGE_CRC_SIZE_def MAFP_USB_BUFFER_SIZE_def
      PACKAGE_DATA_SIZE_MAX_def sizeof_def pack_header_def mafp_tpl_table_t_def
      mafp_templates_t_total_list_len_def TEMPLATE_UID_SIZE_def mafp_tpl_info_t_def
      mafp_template_t_def DEVICE_SN_SIZE_def MAX_FINGER_NUM_def
      mafp_templates_t_priv_list_len_def MAX_USER_NUM_def MAX_NOTEPAD_PAGE_def)

section \<open>Delete on a driver without delete support\<close>

text \<open>
  C9. On an open, idle device that is not suspended, with a cancellable that is not
  already cancelled, \<open>delete_print\<close> on a driver that has no delete entry point or
  lacks the storage-delete feature resolves at once with the boolean TRUE; the state is
  returned as it was (no active operation is recorded) and no driver code is called.
\<close>

theorem delete_without_support_succeeds:
  assumes "is_open s" and "current_task s = None" and "\<not> is_suspended s"
      and "c \<noteq> Some (GCancellable True)"
      and "cls_delete cls = None \<or> FP_DEVICE_FEATURE_STORAGE_DELETE \<notin> features s"
  shows "fp_device_delete_print cls enrolled_print c s = ([Task_return_boolean True], s)"
  using assms(1,2,3,5) not_cancelled [OF assms(4)]
  by (auto simp: fp_device_delete_print_def Let_def split: option.splits)

theorem delete_without_support_succeeds_witness:
  "cls_delete (example_cls\<lparr>cls_delete := None\<rparr>) = None
   \<and> fp_device_delete_print (example_cls\<lparr>cls_delete := None\<rparr>) (Some example_print) None
       example_dev = ([Task_return_boolean True], example_dev)
   \<and> FP_DEVICE_FEATURE_STORAGE_DELETE \<notin>
       features (example_dev\<lparr>features := {FP_DEVICE_FEATURE_VERIFY}\<rparr>)
   \<and> fp_device_delete_print example_cls (Some example_print) None
       (example_dev\<lparr>features := {FP_DEVICE_FEATURE_VERIFY}\<rparr>) =
       ([Task_return_boolean True], example_dev\<lparr>features := {FP_DEVICE_FEATURE_VERIFY}\<rparr>)"
proof -
  have n: "None \<noteq> Some (GCancellable True)"
    by simp
  have a: "is_open example_dev" "current_task example_dev = None" "\<not> is_suspended example_dev"
    by (simp_all add: example_dev_def)
  have b: "is_open (example_dev\<lparr>features := {FP_DEVICE_FEATURE_VERIFY}\<rparr>)"
    "current_task (example_dev\<lparr>features := {FP_DEVICE_FEATURE_VERIFY}\<rparr>) = None"
    "\<not> is_suspended (example_dev\<lparr>features := {FP_DEVICE_FEATURE_VERIFY}\<rparr>)"
    by (simp_all add: example_dev_def)
  have d: "cls_delete (example_cls\<lparr>cls_delete := None\<rparr>) = None
      \<or> FP_DEVICE_FEATURE_STORAGE_DELETE \<notin> features example_dev"
    by simp
  have e: "cls_delete example_cls = None
      \<or> FP_DEVICE_FEATURE_STORAGE_DELETE \<notin>
          features (example_dev\<lparr>features := {FP_DEVICE_FEATURE_VERIFY}\<rparr>)"
    by simp
  show ?thesis
    using delete_without_support_succeeds [OF a n d, of "Some example_print"]
      delete_without_support_succeeds [OF b n e, of "Some example_print"]
    by simp
qed

section \<open>A cancellable that is already cancelled\<close>

text \<open>
  C10. When the cancellable passed to \<open>open\<close>, \<open>close\<close>, \<open>enroll\<close>, \<open>verify\<close>,
  \<open>identify\<close>, \<open>capture\<close>, \<open>delete_print\<close>, \<open>list_prints\<close> or \<open>clear_storage\<close>
  is already cancelled, the call is resolved with the cancellation error whatever the
  state, the driver and the other arguments are, and the state is returned as it was.
  \<open>suspend\<close> and \<open>resume\<close> do the same steps with a cancelled cancellable as with none
  and never resolve with the cancellation error.
\<close>

theorem cancelled_at_entry:
  assumes "g_cancellable_is_cancelled x"
  shows "fp_device_open cls usb_ok (Some x) s = ([Task_return_cancelled], s)
       \<and> fp_device_close cls (Some x) s = ([Task_return_cancelled], s)
       \<and> fp_device_enroll upd cls template_print (Some x) s = ([Task_return_cancelled], s)
       \<and> fp_device_verify upd cls enrolled_print (Some x) s = ([Task_return_cancelled], s)
       \<and> fp_device_identify upd cls prints (Some x) s = ([Task_return_cancelled], s)
       \<and> fp_device_capture upd cls wait (Some x) s = ([Task_return_cancelled], s)
       \<and> fp_device_delete_print cls enrolled_print (Some x) s = ([Task_return_cancelled], s)
       \<and> fp_device_list_prints cls (Some x) s = ([Task_return_cancelled], s)
       \<and> fp_device_clear_storage cls (Some x) s = ([Task_return_cancelled], s)
       \<and> fst (fp_device_suspend susp (Some x) s) = fst (fp_device_suspend susp None s)
       \<and> Task_return_cancelled \<notin> set (fst (fp_device_suspend susp (Some x) s))
       \<and> fst (fp_device_resume res (Some x) s) = fst (fp_device_resume res None s)
       \<and> Task_return_cancelled \<notin> set (fst (fp_device_resume res (Some x) s))"
proof -
  have ca: "g_task_return_error_if_cancelled (g_task_new (Some x))"
    using assms by (rule cancelled)
  have "fp_device_open cls usb_ok (Some x) s = ([Task_return_cancelled], s)"
    using ca by (simp add: fp_device_open_def Let_def)
  moreover have "fp_device_close cls (Some x) s = ([Task_return_cancelled], s)"
    using ca by (simp add: fp_device_close_def Let_def)
  moreover have "fp_device_enroll upd cls template_print (Some x) s = ([Task_return_cancelled], s)"
    using ca by (simp add: fp_device_enroll_def Let_def)
  moreover have "fp_device_verify upd cls enrolled_print (Some x) s = ([Task_return_cancelled], s)"
    using ca by (simp add: fp_device_verify_def Let_def)
  moreover have "fp_device_identify upd cls prints (Some x) s = ([Task_return_cancelled], s)"
    using ca by (simp add: fp_device_identify_def Let_def)
  moreover have "fp_device_capture upd cls wait (Some x) s = ([Task_return_cancelled], s)"
    using ca by (simp add: fp_device_capture_def Let_def)
  moreover have "fp_device_delete_print cls enrolled_print (Some x) s = ([Task_return_cancelled], s)"
    using ca by (simp add: fp_device_delete_print_def Let_def)
  moreover have "fp_device_list_prints cls (Some x) s = ([Task_return_cancelled], s)"
    using ca by (simp add: fp_device_list_prints_def Let_def)
  moreover have "fp_device_clear_storage cls (Some x) s = ([Task_return_cancelled], s)"
    using ca by (simp add: fp_device_clear_storage_def Let_def)
  moreover have "fst (fp_device_suspend susp (Some x) s) = fst (fp_device_suspend susp None s)"
    "Task_return_cancelled \<notin> set (fst (fp_device_suspend susp (Some x) s))"
    by (simp_all add: fp_device_suspend_def Let_def)
  moreover have "fst (fp_device_resume res (Some x) s) = fst (fp_device_resume res None s)"
    "Task_return_cancelled \<notin> set (fst (fp_device_resume res (Some x) s))"
    by (simp_all add: fp_device_resume_def Let_def)
  ultimately show ?thesis by simp
qed

theorem cancelled_at_entry_witness:
  "fp_device_open example_cls True (Some (GCancellable True)) (example_dev\<lparr>is_open := False\<rparr>) =
     ([Task_return_cancelled], example_dev\<lparr>is_open := False\<rparr>)
   \<and> fp_device_enroll example_update_temp example_cls (Some example_print)
       (Some (GCancellable True)) hot_dev = ([Task_return_cancelled], hot_dev)
   \<and> fp_device_close example_cls (Some (GCancellable True)) pending_dev =
     ([Task_return_cancelled], pending_dev)
   \<and> fst (fp_device_suspend id (Some (GCancellable True)) example_dev) =
     [Call_fpi_device_suspend]"
proof -
  have x: "g_cancellable_is_cancelled (GCancellable True)"
    by simp
  have s: "fst (fp_device_suspend id None example_dev) = [Call_fpi_device_suspend]"
    by (simp add: fp_device_suspend_def example_dev_def)
  show ?thesis
    using s
      cancelled_at_entry [OF x, of example_cls True "example_dev\<lparr>is_open := False\<rparr>"]
      cancelled_at_entry [OF x, where s = hot_dev and upd = example_update_temp
        and cls = example_cls and template_print = "Some example_print"]
      cancelled_at_entry [OF x, where s = pending_dev and cls = example_cls]
      cancelled_at_entry [OF x, where s = example_dev and susp = id]
    by simp
qed

end
